theory Spec2Isabelle
  imports Complex_Main "HOL-Library.Char_ord" "HOL-Library.List_Lexorder" "HOL-Library.Product_Lexorder"
begin

section \<open>CalTrack: data model\<close>

text \<open>
  The embedding follows \<^verbatim>\<open>backend/app/models/models.py\<close> and
  \<^verbatim>\<open>backend/app/api/routes.py\<close>.

  \<^item> A calendar date (\<^verbatim>\<open>datetime.date\<close>) is its proleptic Gregorian ordinal, an integer
    between 1 (0001-01-01) and 3652059 (9999-12-31). Adding a \<^verbatim>\<open>timedelta\<close> that leaves
    this range raises \<^verbatim>\<open>OverflowError\<close>.
  \<^item> A timestamp (\<^verbatim>\<open>DateTime\<close>) is an integer.
  \<^item> The \<^verbatim>\<open>Float\<close> columns have the type parameter \<open>'n\<close>. The aggregation only adds
    and multiplies, so it is stated for every type with \<open>0\<close>, \<open>+\<close> and \<open>*\<close>; no law of
    arithmetic (associativity, commutativity, \<open>0 + x = x\<close>) is used, and the theorems hold
    for rounding arithmetic as well as for \<open>int\<close>, \<open>rat\<close> or \<open>real\<close>.
  \<^item> A raised exception is the \<open>Inl\<close> branch of a sum type.
\<close>

type_synonym date = int
type_synonym datetime = int

datatype py_error =
    KeyError
  | OverflowError
  | AttributeError
  | TypeError
  | JSONDecodeError
  | TransportError
  | DataError
  | IntegrityError
  | HTTPException int string

record User =
  u_id :: int
  u_name :: string
  calorie_goal :: int
  protein_goal :: int
  carb_goal :: int
  fat_goal :: int
  u_created_at :: datetime

record 'n FoodEntry =
  entry_id :: int
  user_id :: int
  date :: date
  meal_type :: string
  name :: string
  brand :: "string option"
  barcode :: "string option"
  serving_size :: 'n
  servings :: 'n
  calories :: 'n
  protein :: 'n
  carbs :: 'n
  fat :: 'n
  fiber :: 'n
  sugar :: 'n
  source :: string
  external_id :: "string option"
  image_url :: "string option"
  created_at :: datetime

record 'n WeightEntry =
  w_id :: int
  w_user_id :: int
  w_date :: date
  weight :: 'n
  w_note :: "string option"
  w_created_at :: datetime

text \<open>
  The database session: the three tables the modelled endpoints touch, each as the list of
  its rows. \<open>next_id\<close> is the value the next autoincremented primary key of
  \<^verbatim>\<open>weight_entries\<close> takes.
\<close>

record 'n db =
  users :: "User list"
  food_entries :: "'n FoodEntry list"
  weight_entries :: "'n WeightEntry list"
  next_id :: int

text \<open>
  The configured database is PostgreSQL (\<^verbatim>\<open>core/config.py\<close>), and the tables are created
  with the constraints of \<^verbatim>\<open>models.py\<close>. An \<^verbatim>\<open>Integer\<close> column holds a 32-bit signed value
  and a \<^verbatim>\<open>String(500)\<close> column at most 500 characters, none of them NUL; a commit that
  writes anything else raises \<^verbatim>\<open>DataError\<close>, and a commit that inserts a row for a user id
  that is not in \<^verbatim>\<open>users\<close> raises \<^verbatim>\<open>IntegrityError\<close> (the foreign key). A commit that raises
  stores nothing.
\<close>

definition int4 :: "int \<Rightarrow> bool" where
  "int4 v \<longleftrightarrow> - 2147483648 \<le> v \<and> v \<le> 2147483647"


text \<open>\<^verbatim>\<open>query.first()\<close>: the first row of the result, or \<^verbatim>\<open>None\<close>.\<close>

fun first :: "'a list \<Rightarrow> 'a option" where
  "first [] = None"
| "first (x # xs) = Some x"

section \<open>Daily aggregation (\<^verbatim>\<open>get_daily_entries\<close>)\<close>

text \<open>
  The dictionary \<^verbatim>\<open>{**entry.__dict__, "total_calories": ..., ...}\<close> appended to a
  bucket: the entry with its four effective values.
\<close>

record 'n DailyItem =
  entry :: "'n FoodEntry"
  total_calories :: 'n
  total_protein :: 'n
  total_carbs :: 'n
  total_fat :: 'n

record 'n Totals =
  t_calories :: 'n
  t_protein :: 'n
  t_carbs :: 'n
  t_fat :: 'n

record 'n DailyResult =
  r_date :: date
  meals :: "string \<rightharpoonup> 'n DailyItem list"
  totals :: "'n Totals"

definition meal_slots :: "string list" where
  "meal_slots = [''breakfast'', ''lunch'', ''dinner'', ''snack'']"

definition grouped0 :: "string \<rightharpoonup> 'n DailyItem list" where
  "grouped0 = [''breakfast'' \<mapsto> [], ''lunch'' \<mapsto> [], ''dinner'' \<mapsto> [], ''snack'' \<mapsto> []]"

definition totals0 :: "('n::zero) Totals" where
  "totals0 = \<lparr>t_calories = 0, t_protein = 0, t_carbs = 0, t_fat = 0\<rparr>"

definition daily_item :: "('n::times) FoodEntry \<Rightarrow> 'n DailyItem" where
  "daily_item e =
     \<lparr>entry = e,
      total_calories = calories e * servings e,
      total_protein = protein e * servings e,
      total_carbs = carbs e * servings e,
      total_fat = fat e * servings e\<rparr>"

text \<open>
  The \<^verbatim>\<open>for entry in entries\<close> loop. \<^verbatim>\<open>grouped[entry.meal_type]\<close> raises
  \<^verbatim>\<open>KeyError\<close> when the meal type is not a key of \<^verbatim>\<open>grouped\<close>.
\<close>

fun daily_loop ::
  "(string \<rightharpoonup> ('n::{plus,times}) DailyItem list) \<Rightarrow> 'n Totals \<Rightarrow> 'n FoodEntry list
     \<Rightarrow> py_error + ((string \<rightharpoonup> 'n DailyItem list) \<times> 'n Totals)" where
  "daily_loop grouped tot [] = Inr (grouped, tot)"
| "daily_loop grouped tot (e # es) =
     (let meal_calories = calories e * servings e;
          meal_protein = protein e * servings e;
          meal_carbs = carbs e * servings e;
          meal_fat = fat e * servings e
      in case grouped (meal_type e) of
           None \<Rightarrow> Inl KeyError
         | Some bucket \<Rightarrow>
             daily_loop
               (grouped(meal_type e \<mapsto>
                  bucket @ [\<lparr>entry = e, total_calories = meal_calories,
                             total_protein = meal_protein, total_carbs = meal_carbs,
                             total_fat = meal_fat\<rparr>]))
               (tot\<lparr>t_calories := t_calories tot + meal_calories,
                     t_protein := t_protein tot + meal_protein,
                     t_carbs := t_carbs tot + meal_carbs,
                     t_fat := t_fat tot + meal_fat\<rparr>)
               es)"

text \<open>The body of \<^verbatim>\<open>get_daily_entries\<close> after the query, on the fetched rows.\<close>

definition daily_view ::
  "date \<Rightarrow> ('n::{zero,plus,times}) FoodEntry list \<Rightarrow> py_error + 'n DailyResult" where
  "daily_view entry_date entries =
     (case daily_loop grouped0 totals0 entries of
        Inl err \<Rightarrow> Inl err
      | Inr (grouped, tot) \<Rightarrow> Inr \<lparr>r_date = entry_date, meals = grouped, totals = tot\<rparr>)"

text \<open>
  The query: the rows of the user on the date, ordered by meal type, then creation time.
\<close>

definition daily_query :: "'n db \<Rightarrow> int \<Rightarrow> date \<Rightarrow> 'n FoodEntry list" where
  "daily_query s uid entry_date =
     sort_key (\<lambda>e. (meal_type e, created_at e))
       (filter (\<lambda>e. user_id e = uid \<and> date e = entry_date) (food_entries s))"

definition get_daily_entries ::
  "('n::{zero,plus,times}) db \<Rightarrow> int \<Rightarrow> date \<Rightarrow> py_error + 'n DailyResult" where
  "get_daily_entries s uid entry_date = daily_view entry_date (daily_query s uid entry_date)"

text \<open>The sum of a list taken in its order, from 0: what a running total computes.\<close>

definition sum_in_order :: "('n::{zero,plus}) list \<Rightarrow> 'n" where
  "sum_in_order xs = foldl (+) 0 xs"



section \<open>Dates of the standard library\<close>

text \<open>
  \<^verbatim>\<open>datetime.date\<close> is not code of the repository. The three operations the endpoints
  use are written after CPython's \<^verbatim>\<open>Lib/_pydatetime.py\<close>: \<^verbatim>\<open>date + timedelta(days=k)\<close>
  (\<^verbatim>\<open>date.__add__\<close>), \<^verbatim>\<open>date.weekday()\<close> and \<^verbatim>\<open>date.isoformat()\<close>
  (\<^verbatim>\<open>_ord2ymd\<close> and the format \<^verbatim>\<open>"%04d-%02d-%02d"\<close>).
\<close>

definition MAXORDINAL :: int where
  "MAXORDINAL = 3652059"

definition date_add :: "date \<Rightarrow> int \<Rightarrow> py_error + date" where
  "date_add d days =
     (let o' = d + days in if 0 < o' \<and> o' \<le> MAXORDINAL then Inr o' else Inl OverflowError)"

definition weekday :: "date \<Rightarrow> int" where
  "weekday d = (d + 6) mod 7"

definition DAYS_IN_MONTH :: "int list" where
  "DAYS_IN_MONTH = [-1, 31, 28, 31, 30, 31, 30, 31, 31, 30, 31, 30, 31]"

definition DAYS_BEFORE_MONTH :: "int list" where
  "DAYS_BEFORE_MONTH = [-1, 0, 31, 59, 90, 120, 151, 181, 212, 243, 273, 304, 334]"

definition ord2ymd :: "int \<Rightarrow> int \<times> int \<times> int" where
  "ord2ymd n0 =
     (let n = n0 - 1;
          n400 = n div 146097; n = n mod 146097;
          year = n400 * 400 + 1;
          n100 = n div 36524; n = n mod 36524;
          n4 = n div 1461; n = n mod 1461;
          n1 = n div 365; n = n mod 365;
          year = year + n100 * 100 + n4 * 4 + n1
      in if n1 = 4 \<or> n100 = 4 then (year - 1, 12, 31)
         else
           let leapyear = (n1 = 3 \<and> (n4 \<noteq> 24 \<or> n100 = 3));
               month = (n + 50) div 32;
               preceding = DAYS_BEFORE_MONTH ! nat month
                             + (if month > 2 \<and> leapyear then 1 else 0)
           in if preceding > n
              then let month = month - 1;
                       preceding = preceding
                         - (DAYS_IN_MONTH ! nat month + (if month = 2 \<and> leapyear then 1 else 0))
                   in (year, month, n - preceding + 1)
              else (year, month, n - preceding + 1))"

definition digit :: "int \<Rightarrow> char" where
  "digit k = ''0123456789'' ! nat k"

text \<open>\<^verbatim>\<open>"%04d"\<close> and \<^verbatim>\<open>"%02d"\<close> on the values a date has (0 to 9999, 0 to 99).\<close>

definition fmt04 :: "int \<Rightarrow> string" where
  "fmt04 k = [digit (k div 1000 mod 10), digit (k div 100 mod 10), digit (k div 10 mod 10),
              digit (k mod 10)]"

definition fmt02 :: "int \<Rightarrow> string" where
  "fmt02 k = [digit (k div 10 mod 10), digit (k mod 10)]"

definition isoformat :: "date \<Rightarrow> string" where
  "isoformat d = (case ord2ymd d of (y, m, dd) \<Rightarrow> fmt04 y @ ''-'' @ fmt02 m @ ''-'' @ fmt02 dd)"

section \<open>Weekly aggregation (\<^verbatim>\<open>get_weekly_stats\<close>)\<close>

record 'n WeeklyResult =
  start_date :: date
  end_date :: date
  daily_stats :: "string \<rightharpoonup> 'n Totals"

text \<open>
  \<^verbatim>\<open>for i in range(7): day = start_date + timedelta(days=i); daily_stats[day.isoformat()] = {...}\<close>
\<close>

fun seed_loop ::
  "date \<Rightarrow> (string \<rightharpoonup> ('n::zero) Totals) \<Rightarrow> int list \<Rightarrow> py_error + (string \<rightharpoonup> 'n Totals)" where
  "seed_loop start stats [] = Inr stats"
| "seed_loop start stats (i # is) =
     (case date_add start i of
        Inl err \<Rightarrow> Inl err
      | Inr day \<Rightarrow> seed_loop start (stats(isoformat day \<mapsto> totals0)) is)"

text \<open>
  \<^verbatim>\<open>for entry in entries: day_key = entry.date.isoformat(); if day_key in daily_stats: ... += ...\<close>
\<close>

fun weekly_loop ::
  "(string \<rightharpoonup> ('n::{plus,times}) Totals) \<Rightarrow> 'n FoodEntry list \<Rightarrow> (string \<rightharpoonup> 'n Totals)" where
  "weekly_loop stats [] = stats"
| "weekly_loop stats (e # es) =
     (let day_key = isoformat (date e)
      in case stats day_key of
           None \<Rightarrow> weekly_loop stats es
         | Some tot \<Rightarrow>
             weekly_loop
               (stats(day_key \<mapsto>
                  tot\<lparr>t_calories := t_calories tot + calories e * servings e,
                       t_protein := t_protein tot + protein e * servings e,
                       t_carbs := t_carbs tot + carbs e * servings e,
                       t_fat := t_fat tot + fat e * servings e\<rparr>))
               es)"

text \<open>The body of \<^verbatim>\<open>get_weekly_stats\<close> after the query, on the fetched rows.\<close>

definition weekly_view ::
  "date \<Rightarrow> date \<Rightarrow> ('n::{zero,plus,times}) FoodEntry list \<Rightarrow> py_error + 'n WeeklyResult" where
  "weekly_view start end entries =
     (case seed_loop start Map.empty [0, 1, 2, 3, 4, 5, 6] of
        Inl err \<Rightarrow> Inl err
      | Inr stats \<Rightarrow>
          Inr \<lparr>start_date = start, end_date = end, daily_stats = weekly_loop stats entries\<rparr>)"

definition weekly_query :: "'n db \<Rightarrow> int \<Rightarrow> date \<Rightarrow> date \<Rightarrow> 'n FoodEntry list" where
  "weekly_query s uid start end =
     filter (\<lambda>e. user_id e = uid \<and> date e \<ge> start \<and> date e \<le> end) (food_entries s)"

text \<open>
  \<open>today\<close> is the value of \<^verbatim>\<open>date.today()\<close>. A date is never falsy, so
  \<^verbatim>\<open>if not start_date\<close> tests for \<^verbatim>\<open>None\<close>.
\<close>

definition get_weekly_stats ::
  "date \<Rightarrow> ('n::{zero,plus,times}) db \<Rightarrow> int \<Rightarrow> date option \<Rightarrow> py_error + 'n WeeklyResult" where
  "get_weekly_stats today s uid start_opt =
     (case (case start_opt of
              None \<Rightarrow> date_add today (- weekday today)
            | Some d \<Rightarrow> Inr d) of
        Inl err \<Rightarrow> Inl err
      | Inr start \<Rightarrow>
          (case date_add start 6 of
             Inl err \<Rightarrow> Inl err
           | Inr end \<Rightarrow> weekly_view start end (weekly_query s uid start end)))"


text \<open>
  The running total of the four effective values over rows, from a starting total, in the
  order of the rows.
\<close>

definition add_rows :: "('n::{plus,times}) Totals \<Rightarrow> 'n FoodEntry list \<Rightarrow> 'n Totals" where
  "add_rows tot es =
     \<lparr>t_calories = foldl (+) (t_calories tot) (map (\<lambda>e. calories e * servings e) es),
      t_protein = foldl (+) (t_protein tot) (map (\<lambda>e. protein e * servings e) es),
      t_carbs = foldl (+) (t_carbs tot) (map (\<lambda>e. carbs e * servings e) es),
      t_fat = foldl (+) (t_fat tot) (map (\<lambda>e. fat e * servings e) es)\<rparr>"

section \<open>Listing entries (\<^verbatim>\<open>get_food_entries\<close>)\<close>

text \<open>
  \<^verbatim>\<open>order_by(FoodEntry.date.desc(), FoodEntry.created_at.desc())\<close>: sorting by the pair of
  the negated date and the negated creation time. Rows that agree on both keep the order
  of the table (SQL leaves their order open).
\<close>

definition get_food_entries ::
  "'n db \<Rightarrow> int \<Rightarrow> date option \<Rightarrow> date option \<Rightarrow> 'n FoodEntry list" where
  "get_food_entries s uid date_from date_to =
     (let query = filter (\<lambda>e. user_id e = uid) (food_entries s);
          query = (case date_from of
                     None \<Rightarrow> query
                   | Some d \<Rightarrow> filter (\<lambda>e. date e \<ge> d) query);
          query = (case date_to of
                     None \<Rightarrow> query
                   | Some d \<Rightarrow> filter (\<lambda>e. date e \<le> d) query)
      in sort_key (\<lambda>e. (- date e, - created_at e)) query)"

text \<open>
  The order the Entry Store Adapter contract names: date descending, then meal type, then
  creation time. A list is in that order when its keys are sorted.
\<close>

definition contract_key :: "'n FoodEntry \<Rightarrow> int \<times> string \<times> int" where
  "contract_key e = (- date e, meal_type e, created_at e)"

text \<open>The order of the code: a row before another has a later date, or the same date and
  a creation time that is not earlier.\<close>

definition newest_first :: "'n FoodEntry \<Rightarrow> 'n FoodEntry \<Rightarrow> bool" where
  "newest_first a b \<longleftrightarrow> date a > date b \<or> (date a = date b \<and> created_at a \<ge> created_at b)"

section \<open>Updating the servings of an entry (\<^verbatim>\<open>update_food_entry\<close>)\<close>

text \<open>
  A mutating endpoint returns its response, or the raised exception, together with the
  database after the call. The committed change of the ORM object is the SQL
  \<^verbatim>\<open>UPDATE ... WHERE id = ?\<close> on its primary key.
\<close>

definition update_food_entry ::
  "int \<Rightarrow> 'n \<Rightarrow> 'n db \<Rightarrow> (py_error + 'n FoodEntry) \<times> 'n db" where
  "update_food_entry eid new_servings s =
     (case first (filter (\<lambda>e. entry_id e = eid) (food_entries s)) of
        None \<Rightarrow> (Inl (HTTPException 404 ''Entry not found''), s)
      | Some e \<Rightarrow>
          (Inr (e\<lparr>servings := new_servings\<rparr>),
           s\<lparr>food_entries :=
               map (\<lambda>x. if entry_id x = entry_id e then x\<lparr>servings := new_servings\<rparr> else x)
                 (food_entries s)\<rparr>))"

section \<open>Updating the goals of a user (\<^verbatim>\<open>update_user\<close>)\<close>

text \<open>
  A field of \<^verbatim>\<open>UserUpdate\<close> is either not set by the request, or set, to a value or to
  \<^verbatim>\<open>null\<close>.
\<close>

datatype 'a field = Unset | Given "'a option"

record UserUpdate =
  up_calorie_goal :: "int field"
  up_protein_goal :: "int field"
  up_carb_goal :: "int field"
  up_fat_goal :: "int field"

text \<open>\<^verbatim>\<open>user_update.dict(exclude_unset=True).items()\<close>: the set fields, in declaration order.\<close>

definition dict_exclude_unset :: "UserUpdate \<Rightarrow> (string \<times> int option) list" where
  "dict_exclude_unset u =
     (case up_calorie_goal u of Unset \<Rightarrow> [] | Given v \<Rightarrow> [(''calorie_goal'', v)])
     @ (case up_protein_goal u of Unset \<Rightarrow> [] | Given v \<Rightarrow> [(''protein_goal'', v)])
     @ (case up_carb_goal u of Unset \<Rightarrow> [] | Given v \<Rightarrow> [(''carb_goal'', v)])
     @ (case up_fat_goal u of Unset \<Rightarrow> [] | Given v \<Rightarrow> [(''fat_goal'', v)])"

text \<open>\<^verbatim>\<open>setattr(user, field, value)\<close> for the column names of \<^verbatim>\<open>User\<close> that hold an integer goal;
  any other name is no column and leaves the row as it is.\<close>

definition setattr :: "User \<Rightarrow> string \<Rightarrow> int \<Rightarrow> User" where
  "setattr user fld v =
     (if fld = ''calorie_goal'' then user\<lparr>calorie_goal := v\<rparr>
      else if fld = ''protein_goal'' then user\<lparr>protein_goal := v\<rparr>
      else if fld = ''carb_goal'' then user\<lparr>carb_goal := v\<rparr>
      else if fld = ''fat_goal'' then user\<lparr>fat_goal := v\<rparr>
      else user)"

fun update_loop :: "User \<Rightarrow> (string \<times> int option) list \<Rightarrow> User" where
  "update_loop user [] = user"
| "update_loop user ((fld, value) # rest) =
     (case value of
        None \<Rightarrow> update_loop user rest
      | Some v \<Rightarrow> update_loop (setattr user fld v) rest)"

text \<open>
  The values that the loop assigns all fit their \<^verbatim>\<open>Integer\<close> column: the condition under
  which \<^verbatim>\<open>db.commit()\<close> succeeds.
\<close>

definition goals_fit :: "UserUpdate \<Rightarrow> bool" where
  "goals_fit user_update =
     list_all (\<lambda>(fld, value). case value of None \<Rightarrow> True | Some v \<Rightarrow> int4 v)
       (dict_exclude_unset user_update)"

definition update_user ::
  "int \<Rightarrow> UserUpdate \<Rightarrow> 'n db \<Rightarrow> (py_error + User) \<times> 'n db" where
  "update_user uid user_update s =
     (case first (filter (\<lambda>u. u_id u = uid) (users s)) of
        None \<Rightarrow> (Inl (HTTPException 404 ''User not found''), s)
      | Some user \<Rightarrow>
          if goals_fit user_update
          then
            (Inr (update_loop user (dict_exclude_unset user_update)),
             s\<lparr>users :=
                 map (\<lambda>u. if u_id u = u_id user
                           then update_loop u (dict_exclude_unset user_update) else u)
                   (users s)\<rparr>)
          else (Inl DataError, s))"

section \<open>Logging a weight (\<^verbatim>\<open>create_weight_entry\<close>)\<close>








section \<open>Food Fact Normalizer (\<^verbatim>\<open>services/openfoodfacts.py\<close>)\<close>

text \<open>
  A decoded JSON value, as \<^verbatim>\<open>response.json()\<close> returns it: \<^verbatim>\<open>None\<close>, a bool, an int,
  a float, a string, a list or a dict (its items in order). The same type holds the
  dictionaries the two functions return.
\<close>

datatype 'f json =
    JNull
  | JBool bool
  | JInt int
  | JFloat 'f
  | JStr string
  | JArr "'f json list"
  | JObj "(string \<times> 'f json) list"

text \<open>\<^verbatim>\<open>x.get(key, default)\<close>: defined on a dict only; any other value has no attribute
  \<^verbatim>\<open>get\<close>.\<close>

definition py_get :: "'f json \<Rightarrow> string \<Rightarrow> 'f json \<Rightarrow> py_error + 'f json" where
  "py_get x key dflt =
     (case x of
        JObj items \<Rightarrow> Inr (case map_of items key of None \<Rightarrow> dflt | Some v \<Rightarrow> v)
      | _ \<Rightarrow> Inl AttributeError)"

text \<open>\<^verbatim>\<open>for product in x\<close>: a list yields its elements, a dict its keys, a string its
  characters; nothing else is iterable.\<close>

definition py_iter :: "'f json \<Rightarrow> py_error + 'f json list" where
  "py_iter x =
     (case x of
        JArr xs \<Rightarrow> Inr xs
      | JObj items \<Rightarrow> Inr (map (\<lambda>(k, v). JStr k) items)
      | JStr cs \<Rightarrow> Inr (map (\<lambda>c. JStr [c]) cs)
      | _ \<Rightarrow> Inl TypeError)"

text \<open>Sequencing: an exception of the first step ends the computation.\<close>

definition and_then :: "'e + 'a \<Rightarrow> ('a \<Rightarrow> 'e + 'b) \<Rightarrow> 'e + 'b" where
  "and_then m f = (case m of Inl err \<Rightarrow> Inl err | Inr v \<Rightarrow> f v)"

record 'f request =
  url :: string
  params :: "(string \<times> 'f json) list"
  timeout :: int

record 'f response =
  status_code :: int
  json_body :: "'f json option"

text \<open>
  The upstream service is a function from the request to what \<^verbatim>\<open>await client.get(...)\<close>
  gives: a response, or a raised transport exception (a timeout, a refused connection).
  \<open>json_body\<close> is \<open>None\<close> when the payload is not JSON, and \<^verbatim>\<open>response.json()\<close> raises.
\<close>

type_synonym 'f upstream = "'f request \<Rightarrow> py_error + 'f response"

definition OPENFOODFACTS_API :: string where
  "OPENFOODFACTS_API = ''https://world.openfoodfacts.org/api/v2''"

text \<open>
  The dictionary both functions build from a raw product (written out twice in the source,
  once here).
\<close>

definition normalize :: "'f json \<Rightarrow> py_error + 'f json" where
  "normalize product =
     and_then (py_get product ''nutriments'' (JObj [])) (\<lambda>nutriments.
     and_then (py_get product ''code'' JNull) (\<lambda>v_barcode.
     and_then (py_get product ''product_name'' (JStr ''Unbekannt'')) (\<lambda>v_name.
     and_then (py_get product ''brands'' (JStr [])) (\<lambda>v_brand.
     and_then (py_get product ''image_front_small_url'' JNull) (\<lambda>v_image_url.
     and_then (py_get product ''serving_size'' (JStr ''100g'')) (\<lambda>v_serving_size.
     and_then (py_get nutriments ''energy-kcal_100g'' (JInt 0)) (\<lambda>v_calories.
     and_then (py_get nutriments ''proteins_100g'' (JInt 0)) (\<lambda>v_protein.
     and_then (py_get nutriments ''carbohydrates_100g'' (JInt 0)) (\<lambda>v_carbs.
     and_then (py_get nutriments ''fat_100g'' (JInt 0)) (\<lambda>v_fat.
     and_then (py_get nutriments ''fiber_100g'' (JInt 0)) (\<lambda>v_fiber.
     and_then (py_get nutriments ''sugars_100g'' (JInt 0)) (\<lambda>v_sugar.
       Inr (JObj
         [(''barcode'', v_barcode),
          (''name'', v_name),
          (''brand'', v_brand),
          (''image_url'', v_image_url),
          (''serving_size'', v_serving_size),
          (''calories_per_100g'', v_calories),
          (''protein_per_100g'', v_protein),
          (''carbs_per_100g'', v_carbs),
          (''fat_per_100g'', v_fat),
          (''fiber_per_100g'', v_fiber),
          (''sugar_per_100g'', v_sugar),
          (''source'', JStr ''openfoodfacts'')])))))))))))))"

text \<open>\<^verbatim>\<open>for product in ...: products.append({...})\<close>\<close>

fun search_loop :: "'f json list \<Rightarrow> 'f json list \<Rightarrow> py_error + 'f json list" where
  "search_loop products [] = Inr products"
| "search_loop products (product # rest) =
     (case normalize product of
        Inl err \<Rightarrow> Inl err
      | Inr normalized \<Rightarrow> search_loop (products @ [normalized]) rest)"

text \<open>The request of \<^verbatim>\<open>search_food\<close>: the arguments of its \<^verbatim>\<open>client.get\<close>.\<close>

definition search_request :: "string \<Rightarrow> int \<Rightarrow> int \<Rightarrow> 'f request" where
  "search_request query page page_size =
     \<lparr>url = OPENFOODFACTS_API @ ''/search'',
      params =
        [(''search_terms'', JStr query),
         (''page'', JInt page),
         (''page_size'', JInt page_size),
         (''fields'',
          JStr ''code,product_name,brands,image_front_small_url,nutriments,serving_size''),
         (''json'', JInt 1)],
      timeout = 10\<rparr>"

definition search_food :: "'f upstream \<Rightarrow> string \<Rightarrow> int \<Rightarrow> int \<Rightarrow> py_error + 'f json" where
  "search_food client_get query page page_size =
     (case client_get (search_request query page page_size) of
        Inl err \<Rightarrow> Inl err
      | Inr response \<Rightarrow>
          if status_code response \<noteq> 200
          then Inr (JObj [(''products'', JArr []), (''count'', JInt 0)])
          else
            (case json_body response of
               None \<Rightarrow> Inl JSONDecodeError
             | Some data \<Rightarrow>
                 and_then (py_get data ''products'' (JArr [])) (\<lambda>raw.
                 and_then (py_iter raw) (\<lambda>items.
                 and_then (search_loop [] items) (\<lambda>products.
                 and_then (py_get data ''count'' (JInt 0)) (\<lambda>count.
                   Inr (JObj
                     [(''products'', JArr products),
                      (''count'', count),
                      (''page'', JInt page),
                      (''page_size'', JInt page_size)])))))))"

text \<open>\<^verbatim>\<open>value != 1\<close> is false for the int 1, and for \<^verbatim>\<open>True\<close> and the float 1.0, which
  Python compares equal to 1.\<close>

definition ne_1 :: "('f::one) json \<Rightarrow> bool" where
  "ne_1 x =
     (case x of
        JInt i \<Rightarrow> i \<noteq> 1
      | JBool b \<Rightarrow> \<not> b
      | JFloat f \<Rightarrow> f \<noteq> 1
      | _ \<Rightarrow> True)"

text \<open>The request of \<^verbatim>\<open>get_product_by_barcode\<close>.\<close>

definition product_request :: "string \<Rightarrow> 'f request" where
  "product_request code =
     \<lparr>url = OPENFOODFACTS_API @ ''/product/'' @ code,
      params =
        [(''fields'',
          JStr ''code,product_name,brands,image_front_small_url,nutriments,serving_size'')],
      timeout = 10\<rparr>"

definition get_product_by_barcode ::
  "('f::one) upstream \<Rightarrow> string \<Rightarrow> py_error + 'f json option" where
  "get_product_by_barcode client_get code =
     (case client_get (product_request code) of
        Inl err \<Rightarrow> Inl err
      | Inr response \<Rightarrow>
          if status_code response \<noteq> 200
          then Inr None
          else
            (case json_body response of
               None \<Rightarrow> Inl JSONDecodeError
             | Some data \<Rightarrow>
                 and_then (py_get data ''status'' JNull) (\<lambda>status.
                   if ne_1 status then Inr None
                   else
                     and_then (py_get data ''product'' (JObj [])) (\<lambda>product.
                     and_then (normalize product) (\<lambda>normalized. Inr (Some normalized))))))"

text \<open>Reading a key of a returned dictionary.\<close>

definition field_of :: "'f json \<Rightarrow> string \<Rightarrow> 'f json option" where
  "field_of x key = (case x of JObj items \<Rightarrow> map_of items key | _ \<Rightarrow> None)"

section \<open>Example data\<close>

text \<open>The scenario of the specification: two servings of a banana for breakfast.\<close>

definition banana :: "real FoodEntry" where
  "banana =
     \<lparr>entry_id = 1, user_id = 1, date = 738000, meal_type = ''breakfast'', name = ''Banana'',
      brand = None, barcode = None, serving_size = 100, servings = 2, calories = 90,
      protein = 1, carbs = 20, fat = 0.3, fiber = 2.6, sugar = 12,
      source = ''manual'', external_id = None, image_url = None, created_at = 10\<rparr>"


definition alice :: User where
  "alice = \<lparr>u_id = 1, u_name = ''alice'', calorie_goal = 2000, protein_goal = 150,
             carb_goal = 200, fat_goal = 65, u_created_at = 5\<rparr>"

definition db1 :: "real db" where
  "db1 = \<lparr>users = [alice], food_entries = [banana], weight_entries = [], next_id = 1\<rparr>"






text \<open>
  The frame of the servings update, after the claim's words: the servings are the supplied
  value, and every other field of the entry is as before.
\<close>

definition only_servings :: "'n \<Rightarrow> 'n FoodEntry \<Rightarrow> 'n FoodEntry \<Rightarrow> bool" where
  "only_servings v x x' \<longleftrightarrow>
     servings x' = v \<and> entry_id x' = entry_id x \<and> user_id x' = user_id x \<and> date x' = date x
     \<and> meal_type x' = meal_type x \<and> name x' = name x \<and> brand x' = brand x
     \<and> barcode x' = barcode x \<and> serving_size x' = serving_size x
     \<and> calories x' = calories x \<and> protein x' = protein x \<and> carbs x' = carbs x
     \<and> fat x' = fat x \<and> fiber x' = fiber x \<and> sugar x' = sugar x \<and> source x' = source x
     \<and> external_id x' = external_id x \<and> image_url x' = image_url x
     \<and> created_at x' = created_at x"

text \<open>
  The frame of the goal update, after the specification's words: a goal field that the
  request gives a value takes it, any other goal field (not set, or set to \<^verbatim>\<open>null\<close>) and the
  id, name and creation time of the user are as before.
\<close>

definition new_goal :: "int field \<Rightarrow> int \<Rightarrow> int" where
  "new_goal f old = (case f of Given (Some v) \<Rightarrow> v | _ \<Rightarrow> old)"

definition only_goals :: "UserUpdate \<Rightarrow> User \<Rightarrow> User \<Rightarrow> bool" where
  "only_goals p x x' \<longleftrightarrow>
     calorie_goal x' = new_goal (up_calorie_goal p) (calorie_goal x)
     \<and> protein_goal x' = new_goal (up_protein_goal p) (protein_goal x)
     \<and> carb_goal x' = new_goal (up_carb_goal p) (carb_goal x)
     \<and> fat_goal x' = new_goal (up_fat_goal p) (fat_goal x)
     \<and> u_id x' = u_id x \<and> u_name x' = u_name x \<and> u_created_at x' = u_created_at x"

text \<open>The example of the specification: only \<^verbatim>\<open>protein_goal\<close> is given, as 180; the fat goal
  is sent as \<^verbatim>\<open>null\<close>.\<close>

definition only_protein :: UserUpdate where
  "only_protein = \<lparr>up_calorie_goal = Unset, up_protein_goal = Given (Some 180),
                   up_carb_goal = Unset, up_fat_goal = Given None\<rparr>"

text \<open>A payload whose calorie goal is \<open>2 ^ 31\<close>: one more than an \<^verbatim>\<open>Integer\<close> column holds.\<close>

definition too_big :: UserUpdate where
  "too_big = \<lparr>up_calorie_goal = Given (Some 2147483648), up_protein_goal = Unset,
              up_carb_goal = Unset, up_fat_goal = Unset\<rparr>"

text \<open>The filter of the two optional dates: a bound that is given holds for the row.\<close>

definition in_range :: "date option \<Rightarrow> date option \<Rightarrow> 'n FoodEntry \<Rightarrow> bool" where
  "in_range date_from date_to e \<longleftrightarrow>
     (case date_from of None \<Rightarrow> True | Some d \<Rightarrow> d \<le> date e)
     \<and> (case date_to of None \<Rightarrow> True | Some d \<Rightarrow> date e \<le> d)"

text \<open>A second entry of the same user and day, for lunch, created after the banana.\<close>

definition toast :: "real FoodEntry" where
  "toast = banana\<lparr>entry_id := 3, meal_type := ''lunch'', name := ''Toast'', created_at := 12\<rparr>"

definition db2 :: "real db" where
  "db2 = \<lparr>users = [alice], food_entries = [banana, toast], weight_entries = [], next_id = 1\<rparr>"

text \<open>Three upstream services: one whose call times out, one that answers 200 with a
  payload that is not JSON, and one that answers 503.\<close>

definition timeout_upstream :: "real upstream" where
  "timeout_upstream = (\<lambda>req. Inl TransportError)"

definition garbage_upstream :: "real upstream" where
  "garbage_upstream = (\<lambda>req. Inr \<lparr>status_code = 200, json_body = None\<rparr>)"

definition down_upstream :: "real upstream" where
  "down_upstream = (\<lambda>req. Inr \<lparr>status_code = 503, json_body = None\<rparr>)"

text \<open>The value of a key of a dictionary, or the default when the key is absent.\<close>

definition or_default :: "(string \<times> 'f json) list \<Rightarrow> string \<Rightarrow> 'f json \<Rightarrow> 'f json" where
  "or_default items key dflt = (case map_of items key of None \<Rightarrow> dflt | Some v \<Rightarrow> v)"

text \<open>The nutrient map of a raw product: the dictionary under \<^verbatim>\<open>nutriments\<close>, the empty
  dictionary when the key is absent, and none when the value is no dictionary.\<close>

definition nutriments_of :: "(string \<times> 'f json) list \<Rightarrow> (string \<times> 'f json) list option" where
  "nutriments_of items =
     (case map_of items ''nutriments'' of
        None \<Rightarrow> Some []
      | Some (JObj ns) \<Rightarrow> Some ns
      | Some _ \<Rightarrow> None)"

text \<open>A key of the normalized fact, when the normalizer returns one.\<close>

definition fact_field :: "py_error + 'f json \<Rightarrow> string \<Rightarrow> 'f json option" where
  "fact_field r key = (case r of Inl err \<Rightarrow> None | Inr x \<Rightarrow> field_of x key)"

text \<open>Raw products: one with no field at all, one whose \<^verbatim>\<open>nutriments\<close> is \<^verbatim>\<open>null\<close>, one with
  a code only; an upstream service that answers with the last, and its normalized fact.\<close>

definition bare_product :: "real json" where
  "bare_product = JObj []"

definition null_nutriments :: "real json" where
  "null_nutriments = JObj [(''product_name'', JStr ''Milk''), (''nutriments'', JNull)]"

definition code_only :: "(string \<times> real json) list" where
  "code_only = [(''code'', JStr ''4000417025005'')]"

definition shop_upstream :: "real upstream" where
  "shop_upstream =
     (\<lambda>req. Inr \<lparr>status_code = 200,
                 json_body = Some (JObj [(''status'', JInt 1), (''product'', JObj code_only),
                                         (''products'', JArr [JObj code_only]),
                                         (''count'', JInt 1)])\<rparr>)"

definition code_only_fact :: "real json" where
  "code_only_fact = JObj
     [(''barcode'', JStr ''4000417025005''), (''name'', JStr ''Unbekannt''), (''brand'', JStr []),
      (''image_url'', JNull), (''serving_size'', JStr ''100g''),
      (''calories_per_100g'', JInt 0), (''protein_per_100g'', JInt 0),
      (''carbs_per_100g'', JInt 0), (''fat_per_100g'', JInt 0), (''fiber_per_100g'', JInt 0),
      (''sugar_per_100g'', JInt 0), (''source'', JStr ''openfoodfacts'')]"

text \<open>Rows of a week: two of 2021-07-29, and one of ten days before.\<close>

definition old_row :: "real FoodEntry" where
  "old_row = banana\<lparr>entry_id := 4, date := 737990, created_at := 2\<rparr>"

definition week_rows :: "real FoodEntry list" where
  "week_rows = [banana, toast, old_row]"





section \<open>Verified properties\<close>

subsection \<open>Daily aggregation\<close>

lemma daily_loop_result:
  "\<forall>e\<in>set es. grouped (meal_type e) \<noteq> None \<Longrightarrow>
   daily_loop grouped tot es =
     Inr (\<lambda>k. map_option (\<lambda>bucket. bucket @ map daily_item (filter (\<lambda>e. meal_type e = k) es))
                 (grouped k),
          \<lparr>t_calories = foldl (+) (t_calories tot) (map (\<lambda>e. calories e * servings e) es),
           t_protein = foldl (+) (t_protein tot) (map (\<lambda>e. protein e * servings e) es),
           t_carbs = foldl (+) (t_carbs tot) (map (\<lambda>e. carbs e * servings e) es),
           t_fat = foldl (+) (t_fat tot) (map (\<lambda>e. fat e * servings e) es)\<rparr>)"
proof (induction es arbitrary: grouped tot)
  case Nil
  show ?case by (simp add: option.map_ident)
next
  case (Cons e es)
  from Cons.prems obtain bucket where b: "grouped (meal_type e) = Some bucket"
    by auto
  let ?g = "grouped(meal_type e \<mapsto> bucket @ [daily_item e])"
  let ?t = "tot\<lparr>t_calories := t_calories tot + calories e * servings e,
                 t_protein := t_protein tot + protein e * servings e,
                 t_carbs := t_carbs tot + carbs e * servings e,
                 t_fat := t_fat tot + fat e * servings e\<rparr>"
  have step: "daily_loop grouped tot (e # es) = daily_loop ?g ?t es"
    using b by (simp add: daily_item_def Let_def)
  have "\<forall>x\<in>set es. ?g (meal_type x) \<noteq> None"
    using Cons.prems by simp
  note ih = Cons.IH [OF this, of ?t]
  have buckets: "map_option (\<lambda>bucket. bucket @ map daily_item (filter (\<lambda>x. meal_type x = k) es)) (?g k)
      = map_option (\<lambda>bucket. bucket @ map daily_item (filter (\<lambda>x. meal_type x = k) (e # es)))
          (grouped k)" for k
    using b by (cases "k = meal_type e") auto
  show ?case
    unfolding step ih buckets by simp
qed

lemma grouped0_dom: "(grouped0 k \<noteq> None) = (k \<in> set meal_slots)"
  by (simp add: grouped0_def meal_slots_def)

lemma grouped0_Some: "k \<in> set meal_slots \<Longrightarrow> grouped0 k = Some []"
  by (auto simp add: grouped0_def meal_slots_def)

lemma grouped0_None: "k \<notin> set meal_slots \<Longrightarrow> grouped0 k = None"
  by (auto simp add: grouped0_def meal_slots_def)

lemma daily_view_result:
  assumes "\<forall>e\<in>set entries. meal_type e \<in> set meal_slots"
  shows "daily_view d entries =
     Inr \<lparr>r_date = d,
          meals = (\<lambda>k. if k \<in> set meal_slots
                        then Some (map daily_item (filter (\<lambda>e. meal_type e = k) entries))
                        else None),
          totals = \<lparr>t_calories = sum_in_order (map (\<lambda>e. calories e * servings e) entries),
                    t_protein = sum_in_order (map (\<lambda>e. protein e * servings e) entries),
                    t_carbs = sum_in_order (map (\<lambda>e. carbs e * servings e) entries),
                    t_fat = sum_in_order (map (\<lambda>e. fat e * servings e) entries)\<rparr>\<rparr>"
proof -
  have "\<forall>e\<in>set entries. (grouped0 :: string \<rightharpoonup> 'a DailyItem list) (meal_type e) \<noteq> None"
    using assms by (auto simp: grouped0_Some)
  note r = daily_loop_result [OF this, of totals0]
  have m: "map_option (\<lambda>bucket. bucket @ map daily_item (filter (\<lambda>e. meal_type e = k) entries))
             (grouped0 k)
           = (if k \<in> set meal_slots
              then Some (map daily_item (filter (\<lambda>e. meal_type e = k) entries)) else None)" for k
    by (simp add: grouped0_Some grouped0_None)
  show ?thesis
    unfolding daily_view_def r by (simp add: m sum_in_order_def totals0_def)
qed



text \<open>
  \<^bold>\<open>C9\<close>. When every fetched row has one of the four meal slots as its meal type, the
  lookup \<^verbatim>\<open>grouped[entry.meal_type]\<close> succeeds at every row: the endpoint raises nothing and
  returns a result.
\<close>

theorem get_daily_entries_total:
  assumes "\<forall>e\<in>set (daily_query s uid d). meal_type e \<in> set meal_slots"
  shows "\<exists>r. get_daily_entries s uid d = Inr r"
  unfolding get_daily_entries_def by (simp add: daily_view_result [OF assms])

theorem get_daily_entries_total_witness:
  "list_all (\<lambda>e. meal_type e \<in> set meal_slots) (daily_query db1 1 738000)
   \<and> (\<exists>r. get_daily_entries db1 1 738000 = Inr r)"
  using get_daily_entries_total [of db1 1 738000]
  by (simp add: daily_query_def db1_def banana_def meal_slots_def)



subsection \<open>Weight log\<close>

lemma first_filter_None: "first (filter P xs) = None \<longleftrightarrow> (\<forall>x\<in>set xs. \<not> P x)"
  by (induction xs) auto

lemma first_filter_Some: "first (filter P xs) = Some x \<Longrightarrow> x \<in> set xs \<and> P x"
  by (induction xs) (auto split: if_splits)

















subsection \<open>Updating an entry and a user\<close>

lemma only_servings_update: "only_servings v x (x\<lparr>servings := v\<rparr>)"
  by (simp add: only_servings_def)

lemma list_all2_map_self: "(\<And>x. x \<in> set xs \<Longrightarrow> R x (f x)) \<Longrightarrow> list_all2 R xs (map f xs)"
  by (induction xs) auto

lemma update_food_entry_found:
  assumes "eid \<in> entry_id ` set (food_entries s)"
  shows "\<exists>e. e \<in> set (food_entries s) \<and> entry_id e = eid
     \<and> update_food_entry eid v s =
         (Inr (e\<lparr>servings := v\<rparr>),
          s\<lparr>food_entries :=
              map (\<lambda>x. if entry_id x = eid then x\<lparr>servings := v\<rparr> else x) (food_entries s)\<rparr>)"
proof (cases "first (filter (\<lambda>e. entry_id e = eid) (food_entries s))")
  case None
  then show ?thesis using assms first_filter_None [of "\<lambda>e. entry_id e = eid" "food_entries s"]
    by auto
next
  case (Some e)
  then have "e \<in> set (food_entries s) \<and> entry_id e = eid"
    using first_filter_Some by fastforce
  then show ?thesis using Some by (auto simp: update_food_entry_def)
qed

lemma update_food_entry_missing:
  assumes "eid \<notin> entry_id ` set (food_entries s)"
  shows "update_food_entry eid v s = (Inl (HTTPException 404 ''Entry not found''), s)"
proof -
  have "first (filter (\<lambda>e. entry_id e = eid) (food_entries s)) = None"
    using assms by (auto simp: first_filter_None)
  then show ?thesis by (simp add: update_food_entry_def)
qed

text \<open>
  \<^bold>\<open>C10\<close>. When an entry with the id exists, \<^verbatim>\<open>update_food_entry\<close> returns it with the servings
  set to the supplied value and every other field as before; in the store that row, and
  no other row, changes, in its servings only, and the other tables stay. When no entry
  has the id, the call fails with 404 \<^verbatim>\<open>Entry not found\<close> and the store is as before.
\<close>

theorem update_food_entry_frame:
  "(eid \<in> entry_id ` set (food_entries s) \<longrightarrow>
      (\<exists>e r. e \<in> set (food_entries s) \<and> entry_id e = eid
         \<and> fst (update_food_entry eid v s) = Inr r \<and> only_servings v e r
         \<and> list_all2 (\<lambda>x x'. if entry_id x = eid then only_servings v x x' else x' = x)
             (food_entries s) (food_entries (snd (update_food_entry eid v s)))
         \<and> users (snd (update_food_entry eid v s)) = users s
         \<and> weight_entries (snd (update_food_entry eid v s)) = weight_entries s
         \<and> next_id (snd (update_food_entry eid v s)) = next_id s))
   \<and> (eid \<notin> entry_id ` set (food_entries s) \<longrightarrow>
        update_food_entry eid v s = (Inl (HTTPException 404 ''Entry not found''), s))"
proof (intro conjI impI)
  assume "eid \<in> entry_id ` set (food_entries s)"
  from update_food_entry_found [OF this, of v] obtain e :: "'a FoodEntry" where
    e: "e \<in> set (food_entries s)" "entry_id e = eid"
    and u: "update_food_entry eid v s =
         (Inr (e\<lparr>servings := v\<rparr>),
          s\<lparr>food_entries :=
              map (\<lambda>x. if entry_id x = eid then x\<lparr>servings := v\<rparr> else x) (food_entries s)\<rparr>)"
    by blast
  have "list_all2 (\<lambda>x x'. if entry_id x = eid then only_servings v x x' else x' = x)
          (food_entries s)
          (map (\<lambda>x. if entry_id x = eid then x\<lparr>servings := v\<rparr> else x) (food_entries s))"
    by (rule list_all2_map_self) (simp add: only_servings_update)
  then show "\<exists>e r. e \<in> set (food_entries s) \<and> entry_id e = eid
         \<and> fst (update_food_entry eid v s) = Inr r \<and> only_servings v e r
         \<and> list_all2 (\<lambda>x x'. if entry_id x = eid then only_servings v x x' else x' = x)
             (food_entries s) (food_entries (snd (update_food_entry eid v s)))
         \<and> users (snd (update_food_entry eid v s)) = users s
         \<and> weight_entries (snd (update_food_entry eid v s)) = weight_entries s
         \<and> next_id (snd (update_food_entry eid v s)) = next_id s"
    using e only_servings_update [of v e] unfolding u by auto
next
  assume "eid \<notin> entry_id ` set (food_entries s)"
  then show "update_food_entry eid v s = (Inl (HTTPException 404 ''Entry not found''), s)"
    by (rule update_food_entry_missing)
qed

theorem update_food_entry_frame_witness:
  "1 \<in> entry_id ` set (food_entries db1) \<and> 7 \<notin> entry_id ` set (food_entries db1)
   \<and> fst (update_food_entry 1 3 db1) = Inr (banana\<lparr>servings := 3\<rparr>)
   \<and> food_entries (snd (update_food_entry 1 3 db1)) = [banana\<lparr>servings := 3\<rparr>]
   \<and> update_food_entry 7 3 db1 = (Inl (HTTPException 404 ''Entry not found''), db1)"
  using update_food_entry_frame [of 1 db1 3] update_food_entry_frame [of 7 db1 3]
  by (simp add: db1_def banana_def update_food_entry_def)

lemma update_loop_goals: "only_goals p x (update_loop x (dict_exclude_unset p))"
  by (cases "up_calorie_goal p"; cases "up_protein_goal p"; cases "up_carb_goal p";
      cases "up_fat_goal p")
     (auto simp: only_goals_def new_goal_def dict_exclude_unset_def setattr_def
        split: option.splits)

lemma update_user_found:
  assumes "uid \<in> u_id ` set (users s)" and "goals_fit p"
  shows "\<exists>u. u \<in> set (users s) \<and> u_id u = uid
     \<and> update_user uid p s =
         (Inr (update_loop u (dict_exclude_unset p)),
          s\<lparr>users :=
              map (\<lambda>x. if u_id x = uid then update_loop x (dict_exclude_unset p) else x)
                (users s)\<rparr>)"
proof (cases "first (filter (\<lambda>u. u_id u = uid) (users s))")
  case None
  then show ?thesis using assms first_filter_None [of "\<lambda>u. u_id u = uid" "users s"]
    by auto
next
  case (Some u)
  then have "u \<in> set (users s) \<and> u_id u = uid"
    using first_filter_Some by fastforce
  then show ?thesis using Some assms(2) by (auto simp: update_user_def)
qed

lemma update_user_rejected:
  assumes "uid \<in> u_id ` set (users s)" and "\<not> goals_fit p"
  shows "update_user uid p s = (Inl DataError, s)"
proof (cases "first (filter (\<lambda>u. u_id u = uid) (users s))")
  case None
  then show ?thesis using assms first_filter_None [of "\<lambda>u. u_id u = uid" "users s"]
    by auto
next
  case (Some u)
  then show ?thesis using assms(2) by (simp add: update_user_def)
qed

lemma update_user_missing:
  assumes "uid \<notin> u_id ` set (users s)"
  shows "update_user uid p s = (Inl (HTTPException 404 ''User not found''), s)"
proof -
  have "first (filter (\<lambda>u. u_id u = uid) (users s)) = None"
    using assms by (auto simp: first_filter_None)
  then show ?thesis by (simp add: update_user_def)
qed

text \<open>
  \<^bold>\<open>C5\<close>, as stated for every payload, fails: the goal columns are 32-bit integers, and for
  the existing user 1 and the payload that gives \<^verbatim>\<open>calorie_goal\<close> the value \<open>2 ^ 31\<close> the
  commit raises \<^verbatim>\<open>DataError\<close>; the field is not set, and the store is as before.
\<close>

theorem update_user_out_of_range: "update_user 1 too_big db1 = (Inl DataError, db1)"
  by (simp add: update_user_def db1_def alice_def too_big_def goals_fit_def
      dict_exclude_unset_def int4_def)

text \<open>
  \<^bold>\<open>C5\<close>, amended. For an existing user and a payload whose given values fit a 32-bit signed
  integer, \<^verbatim>\<open>update_user\<close> sets exactly the goal fields to which the payload gives a value
  and leaves every other goal field (not set, or sent as \<^verbatim>\<open>null\<close>) and the id, name and
  creation time of the user as they were; no other user and no other table changes. For
  an existing user and a payload with a value outside that range it fails with
  \<^verbatim>\<open>DataError\<close>, and for an id that no user has with 404 \<^verbatim>\<open>User not found\<close>; in both cases
  the store is as before.
\<close>

theorem update_user_partial:
  "(uid \<in> u_id ` set (users s) \<and> goals_fit p \<longrightarrow>
      (\<exists>u r. u \<in> set (users s) \<and> u_id u = uid
         \<and> fst (update_user uid p s) = Inr r \<and> only_goals p u r
         \<and> list_all2 (\<lambda>x x'. if u_id x = uid then only_goals p x x' else x' = x)
             (users s) (users (snd (update_user uid p s)))
         \<and> food_entries (snd (update_user uid p s)) = food_entries s
         \<and> weight_entries (snd (update_user uid p s)) = weight_entries s
         \<and> next_id (snd (update_user uid p s)) = next_id s))
   \<and> (uid \<in> u_id ` set (users s) \<and> \<not> goals_fit p \<longrightarrow>
        update_user uid p s = (Inl DataError, s))
   \<and> (uid \<notin> u_id ` set (users s) \<longrightarrow>
        update_user uid p s = (Inl (HTTPException 404 ''User not found''), s))"
proof (intro conjI impI)
  assume "uid \<in> u_id ` set (users s) \<and> goals_fit p"
  then have ex: "uid \<in> u_id ` set (users s)" and fit: "goals_fit p"
    by simp_all
  from update_user_found [OF ex fit] obtain u where
    u: "u \<in> set (users s)" "u_id u = uid"
    and r: "update_user uid p s =
         (Inr (update_loop u (dict_exclude_unset p)),
          s\<lparr>users :=
              map (\<lambda>x. if u_id x = uid then update_loop x (dict_exclude_unset p) else x)
                (users s)\<rparr>)"
    by blast
  have "list_all2 (\<lambda>x x'. if u_id x = uid then only_goals p x x' else x' = x)
          (users s)
          (map (\<lambda>x. if u_id x = uid then update_loop x (dict_exclude_unset p) else x) (users s))"
    by (rule list_all2_map_self) (simp add: update_loop_goals)
  then show "\<exists>u r. u \<in> set (users s) \<and> u_id u = uid
         \<and> fst (update_user uid p s) = Inr r \<and> only_goals p u r
         \<and> list_all2 (\<lambda>x x'. if u_id x = uid then only_goals p x x' else x' = x)
             (users s) (users (snd (update_user uid p s)))
         \<and> food_entries (snd (update_user uid p s)) = food_entries s
         \<and> weight_entries (snd (update_user uid p s)) = weight_entries s
         \<and> next_id (snd (update_user uid p s)) = next_id s"
    using u update_loop_goals [of p u] unfolding r by auto
next
  assume "uid \<in> u_id ` set (users s) \<and> \<not> goals_fit p"
  then show "update_user uid p s = (Inl DataError, s)"
    using update_user_rejected by blast
next
  assume "uid \<notin> u_id ` set (users s)"
  then show "update_user uid p s = (Inl (HTTPException 404 ''User not found''), s)"
    by (rule update_user_missing)
qed

theorem update_user_partial_witness:
  "1 \<in> u_id ` set (users db1) \<and> goals_fit only_protein \<and> 7 \<notin> u_id ` set (users db1)
   \<and> fst (update_user 1 only_protein db1) = Inr (alice\<lparr>protein_goal := 180\<rparr>)
   \<and> users (snd (update_user 1 only_protein db1)) = [alice\<lparr>protein_goal := 180\<rparr>]
   \<and> update_user 7 only_protein db1 = (Inl (HTTPException 404 ''User not found''), db1)"
  using update_user_partial [of 1 db1 only_protein] update_user_partial [of 7 db1 only_protein]
  by (simp add: db1_def alice_def only_protein_def update_user_def dict_exclude_unset_def
      setattr_def goals_fit_def int4_def)

subsection \<open>Listing entries\<close>

lemma count_list_insort: "count_list (insort_key f x xs) y = count_list (x # xs) y"
  by (induction xs) auto

lemma count_list_sort_key: "count_list (sort_key f xs) y = count_list xs y"
  by (induction xs) (auto simp: count_list_insort)

lemma get_food_entries_rows:
  "get_food_entries s uid df dt =
     sort_key (\<lambda>e. (- date e, - created_at e))
       (filter (\<lambda>e. user_id e = uid \<and> in_range df dt e) (food_entries s))"
  by (cases df; cases dt) (auto simp: get_food_entries_def in_range_def Let_def conj_commute
      intro: filter_cong)

lemma sorted_newest_first:
  "sorted (map (\<lambda>e. (- date e, - created_at e)) xs) \<Longrightarrow> sorted_wrt newest_first xs"
  by (induction xs) (auto simp: newest_first_def less_eq_prod_def)

text \<open>
  \<^bold>\<open>C8\<close>, as stated, fails: for a breakfast row and a later lunch row of the same day the
  endpoint returns the lunch row first, so the result is not ordered by (date descending,
  meal type, creation time).
\<close>

theorem get_food_entries_contract_order_fails:
  "get_food_entries db2 1 None None = [toast, banana]
   \<and> \<not> sorted (map contract_key (get_food_entries db2 1 None None))"
  by (simp add: get_food_entries_def db2_def toast_def banana_def contract_key_def
      less_eq_prod_def)

text \<open>
  \<^bold>\<open>C8\<close>, amended. For every user id and every optional date range, the list-entries
  operation returns exactly the entries of the user within the range (each as often as it
  is stored), ordered by date descending, then by creation time descending; the meal type
  takes no part in the order.
\<close>

theorem get_food_entries_order:
  "sorted_wrt newest_first (get_food_entries s uid date_from date_to)
   \<and> set (get_food_entries s uid date_from date_to) =
       {e. e \<in> set (food_entries s) \<and> user_id e = uid \<and> in_range date_from date_to e}
   \<and> (\<forall>e. count_list (get_food_entries s uid date_from date_to) e =
          count_list (filter (\<lambda>e. user_id e = uid \<and> in_range date_from date_to e)
                        (food_entries s)) e)"
proof -
  have "sorted (map (\<lambda>e. (- date e, - created_at e)) (get_food_entries s uid date_from date_to))"
    unfolding get_food_entries_rows by (rule sorted_sort_key)
  then have "sorted_wrt newest_first (get_food_entries s uid date_from date_to)"
    by (rule sorted_newest_first)
  moreover have "set (get_food_entries s uid date_from date_to) =
       {e. e \<in> set (food_entries s) \<and> user_id e = uid \<and> in_range date_from date_to e}"
    unfolding get_food_entries_rows by auto
  ultimately show ?thesis
    unfolding get_food_entries_rows by (simp add: count_list_sort_key)
qed

subsection \<open>Food Fact Normalizer: upstream failures\<close>

text \<open>
  \<^bold>\<open>C4\<close>, as stated, fails: neither function catches an exception. A payload that is not
  JSON makes \<^verbatim>\<open>response.json()\<close> raise, and a timeout makes \<^verbatim>\<open>client.get\<close> raise; both reach
  the caller as raised errors, for search and for barcode lookup.
\<close>

theorem upstream_errors_propagate:
  "search_food garbage_upstream ''milk'' 1 20 = Inl JSONDecodeError
   \<and> get_product_by_barcode garbage_upstream ''4000417025005'' = Inl JSONDecodeError
   \<and> search_food timeout_upstream ''milk'' 1 20 = Inl TransportError
   \<and> get_product_by_barcode timeout_upstream ''4000417025005'' = Inl TransportError"
  by (simp add: search_food_def get_product_by_barcode_def garbage_upstream_def
      timeout_upstream_def)

text \<open>
  \<^bold>\<open>C4\<close>, amended. A response with a status other than 200 degrades to the empty result
  \<^verbatim>\<open>{"products": [], "count": 0}\<close> for search and to "not found" (\<^verbatim>\<open>None\<close>) for barcode lookup,
  as does, for barcode lookup, a 200 response whose JSON object has a \<^verbatim>\<open>status\<close> other than
  1. An exception of the transport (a timeout, a refused connection) and a 200 response
  whose payload is not JSON are not absorbed: they are raised to the caller.
\<close>

theorem upstream_failures:
  "(client_get (search_request query page page_size) = Inr resp \<and> status_code resp \<noteq> 200 \<longrightarrow>
      search_food client_get query page page_size
        = Inr (JObj [(''products'', JArr []), (''count'', JInt 0)]))
   \<and> (client_get (product_request code) = Inr resp' \<and> status_code resp' \<noteq> 200 \<longrightarrow>
        get_product_by_barcode client_get code = Inr None)
   \<and> (client_get (product_request code) = Inr resp' \<and> status_code resp' = 200
        \<and> json_body resp' = Some (JObj data) \<and> ne_1 (case map_of data ''status'' of None \<Rightarrow> JNull | Some v \<Rightarrow> v) \<longrightarrow>
        get_product_by_barcode client_get code = Inr None)
   \<and> (client_get (search_request query page page_size) = Inl err \<longrightarrow>
        search_food client_get query page page_size = Inl err)
   \<and> (client_get (product_request code) = Inl err' \<longrightarrow>
        get_product_by_barcode client_get code = Inl err')
   \<and> (client_get (search_request query page page_size) = Inr resp \<and> status_code resp = 200
        \<and> json_body resp = None \<longrightarrow>
        search_food client_get query page page_size = Inl JSONDecodeError)
   \<and> (client_get (product_request code) = Inr resp' \<and> status_code resp' = 200
        \<and> json_body resp' = None \<longrightarrow>
        get_product_by_barcode client_get code = Inl JSONDecodeError)"
  by (simp add: search_food_def get_product_by_barcode_def and_then_def py_get_def)

theorem upstream_failures_witness:
  "down_upstream (search_request ''milk'' 1 20) = Inr \<lparr>status_code = 503, json_body = None\<rparr>
   \<and> search_food down_upstream ''milk'' 1 20
       = Inr (JObj [(''products'', JArr []), (''count'', JInt 0)])
   \<and> get_product_by_barcode down_upstream ''4000417025005'' = Inr None"
  using upstream_failures [of down_upstream "''milk''" 1 20
      "\<lparr>status_code = 503, json_body = None\<rparr>" "''4000417025005''"
      "\<lparr>status_code = 503, json_body = None\<rparr>"]
  by (simp add: down_upstream_def)

subsection \<open>Food Fact Normalizer: defaults\<close>

lemma normalize_object:
  assumes "nutriments_of items = Some ns"
  shows "normalize (JObj items) =
     Inr (JObj
       [(''barcode'', or_default items ''code'' JNull),
        (''name'', or_default items ''product_name'' (JStr ''Unbekannt'')),
        (''brand'', or_default items ''brands'' (JStr [])),
        (''image_url'', or_default items ''image_front_small_url'' JNull),
        (''serving_size'', or_default items ''serving_size'' (JStr ''100g'')),
        (''calories_per_100g'', or_default ns ''energy-kcal_100g'' (JInt 0)),
        (''protein_per_100g'', or_default ns ''proteins_100g'' (JInt 0)),
        (''carbs_per_100g'', or_default ns ''carbohydrates_100g'' (JInt 0)),
        (''fat_per_100g'', or_default ns ''fat_100g'' (JInt 0)),
        (''fiber_per_100g'', or_default ns ''fiber_100g'' (JInt 0)),
        (''sugar_per_100g'', or_default ns ''sugars_100g'' (JInt 0)),
        (''source'', JStr ''openfoodfacts'')])"
proof -
  have g: "py_get (JObj items) ''nutriments'' (JObj []) = Inr (JObj ns)"
    using assms
    by (cases "map_of items ''nutriments''")
       (auto simp: py_get_def nutriments_of_def split: json.splits)
  show ?thesis
    unfolding normalize_def g
    by (simp add: py_get_def and_then_def or_default_def)
qed

lemma search_loop_all:
  "list_all2 (\<lambda>p r. normalize p = Inr r) ps rs \<Longrightarrow> search_loop acc ps = Inr (acc @ rs)"
  by (induction ps rs arbitrary: acc rule: list_all2_induct) auto

text \<open>
  \<^bold>\<open>C6\<close>, as stated, fails twice: the placeholder of a missing display name is the literal
  \<^verbatim>\<open>"Unbekannt"\<close>, not \<^verbatim>\<open>"unknown"\<close>; and not every raw product yields a fact: for a product
  whose \<^verbatim>\<open>nutriments\<close> is \<^verbatim>\<open>null\<close>, \<^verbatim>\<open>nutriments.get\<close> raises \<^verbatim>\<open>AttributeError\<close>.
\<close>

theorem normalize_placeholder:
  "fact_field (normalize bare_product) ''name'' = Some (JStr ''Unbekannt'')
   \<and> fact_field (normalize bare_product) ''name'' \<noteq> Some (JStr ''unknown'')
   \<and> normalize null_nutriments = Inl AttributeError"
  by (simp add: fact_field_def bare_product_def null_nutriments_def normalize_def py_get_def
      and_then_def field_of_def)

text \<open>
  \<^bold>\<open>C6\<close>, amended. For every raw product that is a JSON object whose \<^verbatim>\<open>nutriments\<close> is absent
  or an object, the normalizer produces a fact in which an absent display name becomes
  the literal \<^verbatim>\<open>"Unbekannt"\<close>, an absent brand the empty string, an absent image URL
  \<^verbatim>\<open>None\<close>, an absent serving size the literal \<^verbatim>\<open>"100g"\<close>, each of the six macro fields absent
  from the nutrient map the integer 0 (all six when \<^verbatim>\<open>nutriments\<close> is absent), and the source
  is always \<^verbatim>\<open>"openfoodfacts"\<close>; a key that is present passes its value on. Barcode lookup
  returns this fact for the product of a 200 response with status 1, and search returns
  the facts of the products of a 200 response, in their order.
\<close>

theorem normalize_defaults:
  assumes "nutriments_of items = Some ns"
  shows "\<exists>r. normalize (JObj items) = Inr r
    \<and> (map_of items ''product_name'' = None \<longrightarrow> field_of r ''name'' = Some (JStr ''Unbekannt''))
    \<and> (map_of items ''brands'' = None \<longrightarrow> field_of r ''brand'' = Some (JStr []))
    \<and> (map_of items ''image_front_small_url'' = None \<longrightarrow> field_of r ''image_url'' = Some JNull)
    \<and> (map_of items ''serving_size'' = None \<longrightarrow> field_of r ''serving_size'' = Some (JStr ''100g''))
    \<and> (map_of ns ''energy-kcal_100g'' = None \<longrightarrow> field_of r ''calories_per_100g'' = Some (JInt 0))
    \<and> (map_of ns ''proteins_100g'' = None \<longrightarrow> field_of r ''protein_per_100g'' = Some (JInt 0))
    \<and> (map_of ns ''carbohydrates_100g'' = None \<longrightarrow> field_of r ''carbs_per_100g'' = Some (JInt 0))
    \<and> (map_of ns ''fat_100g'' = None \<longrightarrow> field_of r ''fat_per_100g'' = Some (JInt 0))
    \<and> (map_of ns ''fiber_100g'' = None \<longrightarrow> field_of r ''fiber_per_100g'' = Some (JInt 0))
    \<and> (map_of ns ''sugars_100g'' = None \<longrightarrow> field_of r ''sugar_per_100g'' = Some (JInt 0))
    \<and> field_of r ''source'' = Some (JStr ''openfoodfacts'')
    \<and> field_of r ''barcode'' = Some (or_default items ''code'' JNull)
    \<and> field_of r ''name'' = Some (or_default items ''product_name'' (JStr ''Unbekannt''))
    \<and> field_of r ''brand'' = Some (or_default items ''brands'' (JStr []))
    \<and> field_of r ''image_url'' = Some (or_default items ''image_front_small_url'' JNull)
    \<and> field_of r ''serving_size'' = Some (or_default items ''serving_size'' (JStr ''100g''))
    \<and> field_of r ''calories_per_100g'' = Some (or_default ns ''energy-kcal_100g'' (JInt 0))
    \<and> field_of r ''protein_per_100g'' = Some (or_default ns ''proteins_100g'' (JInt 0))
    \<and> field_of r ''carbs_per_100g'' = Some (or_default ns ''carbohydrates_100g'' (JInt 0))
    \<and> field_of r ''fat_per_100g'' = Some (or_default ns ''fat_100g'' (JInt 0))
    \<and> field_of r ''fiber_per_100g'' = Some (or_default ns ''fiber_100g'' (JInt 0))
    \<and> field_of r ''sugar_per_100g'' = Some (or_default ns ''sugars_100g'' (JInt 0))
    \<and> (client_get (product_request code) = Inr resp \<and> status_code resp = 200
         \<and> json_body resp = Some (JObj data) \<and> map_of data ''status'' = Some (JInt 1)
         \<and> or_default data ''product'' (JObj []) = JObj items \<longrightarrow>
         get_product_by_barcode client_get code = Inr (Some r))
    \<and> (client_get (search_request query page page_size) = Inr resp' \<and> status_code resp' = 200
         \<and> json_body resp' = Some (JObj data') \<and> map_of data' ''products'' = Some (JArr ps)
         \<and> list_all2 (\<lambda>p x. normalize p = Inr x) ps rs \<longrightarrow>
         search_food client_get query page page_size =
           Inr (JObj [(''products'', JArr rs), (''count'', or_default data' ''count'' (JInt 0)),
                      (''page'', JInt page), (''page_size'', JInt page_size)]))"
proof -
  note n = normalize_object [OF assms]
  have b: "get_product_by_barcode client_get code = Inr (Some r)"
    if "client_get (product_request code) = Inr resp \<and> status_code resp = 200
         \<and> json_body resp = Some (JObj data) \<and> map_of data ''status'' = Some (JInt 1)
         \<and> or_default data ''product'' (JObj []) = JObj items" and "normalize (JObj items) = Inr r"
    for r
    using that
    by (simp add: get_product_by_barcode_def and_then_def py_get_def ne_1_def or_default_def)
  have s: "search_food client_get query page page_size =
           Inr (JObj [(''products'', JArr rs), (''count'', or_default data' ''count'' (JInt 0)),
                      (''page'', JInt page), (''page_size'', JInt page_size)])"
    if "client_get (search_request query page page_size) = Inr resp' \<and> status_code resp' = 200
         \<and> json_body resp' = Some (JObj data') \<and> map_of data' ''products'' = Some (JArr ps)
         \<and> list_all2 (\<lambda>p x. normalize p = Inr x) ps rs"
    using that search_loop_all [of ps rs "[]"]
    by (simp add: search_food_def and_then_def py_get_def py_iter_def or_default_def)
  obtain r where r: "normalize (JObj items) = Inr r" and rdef: "r = JObj
       [(''barcode'', or_default items ''code'' JNull),
        (''name'', or_default items ''product_name'' (JStr ''Unbekannt'')),
        (''brand'', or_default items ''brands'' (JStr [])),
        (''image_url'', or_default items ''image_front_small_url'' JNull),
        (''serving_size'', or_default items ''serving_size'' (JStr ''100g'')),
        (''calories_per_100g'', or_default ns ''energy-kcal_100g'' (JInt 0)),
        (''protein_per_100g'', or_default ns ''proteins_100g'' (JInt 0)),
        (''carbs_per_100g'', or_default ns ''carbohydrates_100g'' (JInt 0)),
        (''fat_per_100g'', or_default ns ''fat_100g'' (JInt 0)),
        (''fiber_per_100g'', or_default ns ''fiber_100g'' (JInt 0)),
        (''sugar_per_100g'', or_default ns ''sugars_100g'' (JInt 0)),
        (''source'', JStr ''openfoodfacts'')]"
    using n by blast
  have f: "field_of r ''barcode'' = Some (or_default items ''code'' JNull)"
    "field_of r ''name'' = Some (or_default items ''product_name'' (JStr ''Unbekannt''))"
    "field_of r ''brand'' = Some (or_default items ''brands'' (JStr []))"
    "field_of r ''image_url'' = Some (or_default items ''image_front_small_url'' JNull)"
    "field_of r ''serving_size'' = Some (or_default items ''serving_size'' (JStr ''100g''))"
    "field_of r ''calories_per_100g'' = Some (or_default ns ''energy-kcal_100g'' (JInt 0))"
    "field_of r ''protein_per_100g'' = Some (or_default ns ''proteins_100g'' (JInt 0))"
    "field_of r ''carbs_per_100g'' = Some (or_default ns ''carbohydrates_100g'' (JInt 0))"
    "field_of r ''fat_per_100g'' = Some (or_default ns ''fat_100g'' (JInt 0))"
    "field_of r ''fiber_per_100g'' = Some (or_default ns ''fiber_100g'' (JInt 0))"
    "field_of r ''sugar_per_100g'' = Some (or_default ns ''sugars_100g'' (JInt 0))"
    "field_of r ''source'' = Some (JStr ''openfoodfacts'')"
    unfolding rdef by (simp_all add: field_of_def)
  have d: "map_of xs k = None \<Longrightarrow> or_default xs k v = v"
    for xs :: "(string \<times> 'a json) list" and k v
    by (simp add: or_default_def)
  show ?thesis
    by (rule exI [of _ r]) (use r f b [OF _ r] s in \<open>simp add: d\<close>)
qed

theorem normalize_defaults_witness:
  "nutriments_of code_only = Some []
   \<and> normalize (JObj code_only) = Inr code_only_fact
   \<and> get_product_by_barcode shop_upstream ''4000417025005'' = Inr (Some code_only_fact)
   \<and> search_food shop_upstream ''milk'' 1 20 =
       Inr (JObj [(''products'', JArr [code_only_fact]), (''count'', JInt 1),
                  (''page'', JInt 1), (''page_size'', JInt 20)])"
  using normalize_defaults [of code_only "[]" shop_upstream "''4000417025005''"]
  by (simp add: code_only_def code_only_fact_def shop_upstream_def nutriments_of_def
      normalize_def py_get_def and_then_def get_product_by_barcode_def search_food_def
      py_iter_def ne_1_def)

subsection \<open>Weekly aggregation\<close>

lemma add_rows_Nil: "add_rows tot [] = tot"
  by (simp add: add_rows_def)

lemma add_rows_Cons:
  "add_rows tot (e # es) =
     add_rows (tot\<lparr>t_calories := t_calories tot + calories e * servings e,
                    t_protein := t_protein tot + protein e * servings e,
                    t_carbs := t_carbs tot + carbs e * servings e,
                    t_fat := t_fat tot + fat e * servings e\<rparr>) es"
  by (simp add: add_rows_def)

lemma weekly_loop_result:
  "weekly_loop stats es =
     (\<lambda>k. map_option (\<lambda>tot. add_rows tot (filter (\<lambda>e. isoformat (date e) = k) es)) (stats k))"
proof (induction es arbitrary: stats)
  case Nil
  show ?case by (simp add: add_rows_Nil option.map_ident)
next
  case (Cons e es)
  show ?case
  proof (cases "stats (isoformat (date e))")
    case None
    have "map_option (\<lambda>tot. add_rows tot (filter (\<lambda>x. isoformat (date x) = k) (e # es))) (stats k)
        = map_option (\<lambda>tot. add_rows tot (filter (\<lambda>x. isoformat (date x) = k) es)) (stats k)" for k
      using None by (cases "isoformat (date e) = k") auto
    then show ?thesis using None by (simp add: Cons.IH)
  next
    case (Some tot)
    let ?tot = "tot\<lparr>t_calories := t_calories tot + calories e * servings e,
                     t_protein := t_protein tot + protein e * servings e,
                     t_carbs := t_carbs tot + carbs e * servings e,
                     t_fat := t_fat tot + fat e * servings e\<rparr>"
    let ?stats = "stats(isoformat (date e) \<mapsto> ?tot)"
    have step: "weekly_loop stats (e # es) = weekly_loop ?stats es"
      using Some by (simp add: Let_def)
    have "map_option (\<lambda>tot. add_rows tot (filter (\<lambda>x. isoformat (date x) = k) es)) (?stats k)
        = map_option (\<lambda>tot. add_rows tot (filter (\<lambda>x. isoformat (date x) = k) (e # es))) (stats k)"
      for k
      using Some by (cases "isoformat (date e) = k") (auto simp: add_rows_Cons)
    then show ?thesis unfolding step Cons.IH by simp
  qed
qed

lemma seed_loop_result:
  "\<forall>i\<in>set is. 0 < start + i \<and> start + i \<le> MAXORDINAL \<Longrightarrow>
   seed_loop start stats is =
     Inr (\<lambda>k. if k \<in> (\<lambda>i. isoformat (start + i)) ` set is then Some totals0 else stats k)"
proof (induction "is" arbitrary: stats)
  case Nil
  show ?case by simp
next
  case (Cons i "is")
  have a: "date_add start i = Inr (start + i)"
    using Cons.prems by (simp add: date_add_def)
  have "\<forall>i\<in>set is. 0 < start + i \<and> start + i \<le> MAXORDINAL"
    using Cons.prems by simp
  note ih = Cons.IH [OF this]
  show ?case
    unfolding seed_loop.simps a ih by (auto simp: fun_eq_iff)
qed

lemma week_days: "(\<lambda>i. start + i) ` set [0, 1, 2, 3, 4, 5, 6] = {start .. start + (6::int)}"
proof -
  have "set [0, 1, 2, 3, 4, 5, 6] = {0 .. 6::int}"
    by auto
  then show ?thesis
    by (simp add: image_add_atLeastAtMost del: set_simps)
qed

lemma weekly_view_result:
  assumes "0 < start" and "start + 6 \<le> MAXORDINAL"
  shows "weekly_view start end entries =
     Inr \<lparr>start_date = start, end_date = end,
          daily_stats = (\<lambda>k. if k \<in> isoformat ` {start .. start + 6}
                              then Some (add_rows totals0 (filter (\<lambda>e. isoformat (date e) = k) entries))
                              else None)\<rparr>"
proof -
  have "\<forall>i\<in>set [0, 1, 2, 3, 4, 5, 6]. 0 < start + i \<and> start + i \<le> MAXORDINAL"
    using assms by auto
  note seed = seed_loop_result [OF this, of Map.empty]
  have img: "(\<lambda>i. isoformat (start + i)) ` set [0, 1, 2, 3, 4, 5, 6] = isoformat ` {start .. start + 6}"
    using week_days [of start] by (simp only: image_image [symmetric])
  show ?thesis
    unfolding weekly_view_def seed img weekly_loop_result
    by (auto simp: fun_eq_iff)
qed

lemma add_rows_zero:
  "add_rows totals0 es =
     \<lparr>t_calories = sum_in_order (map (\<lambda>e. calories e * servings e) es),
      t_protein = sum_in_order (map (\<lambda>e. protein e * servings e) es),
      t_carbs = sum_in_order (map (\<lambda>e. carbs e * servings e) es),
      t_fat = sum_in_order (map (\<lambda>e. fat e * servings e) es)\<rparr>"
  by (simp add: add_rows_def totals0_def sum_in_order_def)

lemma weekly_view_overflow:
  "\<not> (0 < start \<and> start + 6 \<le> MAXORDINAL) \<Longrightarrow> 0 < start + 6 \<Longrightarrow> start + 6 \<le> MAXORDINAL
   \<Longrightarrow> weekly_view start end entries = Inl OverflowError"
  by (simp add: weekly_view_def date_add_def Let_def)

lemma get_weekly_stats_some:
  "get_weekly_stats today s uid (Some start) =
     (if 0 < start \<and> start + 6 \<le> MAXORDINAL
      then weekly_view start (start + 6) (weekly_query s uid start (start + 6))
      else Inl OverflowError)"
proof (cases "0 < start + 6 \<and> start + 6 \<le> MAXORDINAL")
  case False
  then show ?thesis
    by (auto simp: get_weekly_stats_def date_add_def Let_def)
next
  case True
  then have d: "date_add start 6 = Inr (start + 6)"
    by (simp add: date_add_def Let_def)
  show ?thesis
  proof (cases "0 < start")
    case True
    then show ?thesis using d \<open>0 < start + 6 \<and> start + 6 \<le> MAXORDINAL\<close>
      by (simp add: get_weekly_stats_def)
  next
    case False
    then have "weekly_view start (start + 6) (weekly_query s uid start (start + 6)) = Inl OverflowError"
      using weekly_view_overflow [of start] True by simp
    then show ?thesis using d False by (simp add: get_weekly_stats_def)
  qed
qed




lemma window_filter:
  assumes inj: "inj_on isoformat ({start .. start + 6} \<union> date ` set entries)"
    and d: "d \<in> {start .. start + 6}"
  shows "filter (\<lambda>e. isoformat (date e) = isoformat d) entries = filter (\<lambda>e. date e = d) entries"
proof (rule filter_cong [OF refl])
  fix e assume "e \<in> set entries"
  then have "date e \<in> {start .. start + 6} \<union> date ` set entries" by simp
  moreover have "d \<in> {start .. start + 6} \<union> date ` set entries" using d by simp
  ultimately show "(isoformat (date e) = isoformat d) = (date e = d)"
    using inj by (auto dest: inj_onD)
qed

lemma card_week: "inj_on isoformat {start .. start + 6} \<Longrightarrow> card (isoformat ` {start .. start + 6}) = 7"
  by (simp add: card_image)

text \<open>
  \<^bold>\<open>C2\<close>, as stated for every start date, fails: a date is at most 9999-12-31 (ordinal
  3652059), and for that start date \<^verbatim>\<open>start_date + timedelta(days=6)\<close> raises
  \<^verbatim>\<open>OverflowError\<close>: no end date and no mapping are returned.
\<close>

theorem get_weekly_stats_overflow:
  "get_weekly_stats 738000 db1 1 (Some 3652059) = Inl OverflowError"
  by (simp add: get_weekly_stats_some MAXORDINAL_def)

text \<open>
  \<^bold>\<open>C2\<close>, amended. For every start date whose sixth following day is a date (at most
  9999-12-31) and every list of fetched rows, where the ISO strings of the dates involved
  (the seven days and the dates of the rows) are distinct for distinct dates, the weekly
  aggregation returns the end date \<open>start + 6\<close> and a mapping whose keys are exactly the
  ISO strings of the seven days; under the key of a day stand the four sums, over the rows
  of that date in their order, of per-serving value times servings (zero when the day has
  no row); rows of a date outside the seven days change nothing: the result is that of
  the rows inside the window. The endpoint computes this on the rows of its query.
\<close>

theorem get_weekly_stats_window:
  assumes "0 < start" and "start + 6 \<le> MAXORDINAL"
    and inj: "inj_on isoformat ({start .. start + 6} \<union> date ` set entries)"
  shows "\<exists>r. weekly_view start (start + 6) entries = Inr r
     \<and> start_date r = start \<and> end_date r = start + 6
     \<and> dom (daily_stats r) = isoformat ` {start .. start + 6}
     \<and> card (dom (daily_stats r)) = 7
     \<and> (\<forall>d\<in>{start .. start + 6}.
           daily_stats r (isoformat d) =
             Some \<lparr>t_calories = sum_in_order (map (\<lambda>e. calories e * servings e)
                                  (filter (\<lambda>e. date e = d) entries)),
                   t_protein = sum_in_order (map (\<lambda>e. protein e * servings e)
                                 (filter (\<lambda>e. date e = d) entries)),
                   t_carbs = sum_in_order (map (\<lambda>e. carbs e * servings e)
                               (filter (\<lambda>e. date e = d) entries)),
                   t_fat = sum_in_order (map (\<lambda>e. fat e * servings e)
                             (filter (\<lambda>e. date e = d) entries))\<rparr>)
     \<and> weekly_view start (start + 6)
           (filter (\<lambda>e. start \<le> date e \<and> date e \<le> start + 6) entries) = Inr r
     \<and> get_weekly_stats today s uid (Some start) =
         weekly_view start (start + 6) (weekly_query s uid start (start + 6))"
proof -
  let ?stats = "\<lambda>es k. if k \<in> isoformat ` {start .. start + 6}
                  then Some (add_rows totals0 (filter (\<lambda>e. isoformat (date e) = k) es))
                  else None"
  let ?r = "\<lparr>start_date = start, end_date = start + 6, daily_stats = ?stats entries\<rparr>"
  have r: "weekly_view start (start + 6) entries = Inr ?r"
    by (rule weekly_view_result [OF assms(1,2)])
  have dm: "dom (?stats entries) = isoformat ` {start .. start + 6}"
    by (auto simp: dom_def)
  have "inj_on isoformat {start .. start + 6}"
    using inj by (rule inj_on_subset) simp
  then have cd: "card (dom (?stats entries)) = 7"
    unfolding dm by (rule card_week)
  have day: "?stats entries (isoformat d) =
      Some (add_rows totals0 (filter (\<lambda>e. date e = d) entries))"
    if "d \<in> {start .. start + 6}" for d
    using that window_filter [OF inj that] by simp
  let ?inside = "filter (\<lambda>e. start \<le> date e \<and> date e \<le> start + 6) entries"
  have same: "?stats ?inside k = ?stats entries k" for k
  proof (cases "k \<in> isoformat ` {start .. start + 6}")
    case False
    then show ?thesis by simp
  next
    case True
    then obtain d where d: "d \<in> {start .. start + 6}" and k: "k = isoformat d" by blast
    have "filter (\<lambda>e. isoformat (date e) = isoformat d) ?inside =
          filter (\<lambda>e. isoformat (date e) = isoformat d) entries"
    proof -
      have "(isoformat (date e) = isoformat d \<and> start \<le> date e \<and> date e \<le> start + 6)
            = (isoformat (date e) = isoformat d)" if "e \<in> set entries" for e
      proof -
        have "date e \<in> {start .. start + 6} \<union> date ` set entries" using that by simp
        moreover have "d \<in> {start .. start + 6} \<union> date ` set entries" using d by simp
        ultimately have "isoformat (date e) = isoformat d \<Longrightarrow> date e = d"
          using inj by (auto dest: inj_onD)
        then show ?thesis using d by auto
      qed
      then show ?thesis
        by (simp add: conj_commute cong: filter_cong)
    qed
    then show ?thesis using True k by simp
  qed
  have inside: "weekly_view start (start + 6) ?inside = Inr ?r"
    unfolding weekly_view_result [OF assms(1,2)] using same by (simp add: fun_eq_iff)
  have ep: "get_weekly_stats today s uid (Some start) =
         weekly_view start (start + 6) (weekly_query s uid start (start + 6))"
    using assms(1,2) by (simp add: get_weekly_stats_some)
  show ?thesis
    apply (rule exI [of _ ?r])
    using r dm cd day inside ep by (simp add: add_rows_zero)
qed

lemma iso_week:
  "map isoformat [738000, 738001, 738002, 738003, 738004, 738005, 738006, 737990] =
     [''2021-07-29'', ''2021-07-30'', ''2021-07-31'', ''2021-08-01'', ''2021-08-02'',
      ''2021-08-03'', ''2021-08-04'', ''2021-07-19'']"
  by code_simp

lemma inj_week: "inj_on isoformat ({738000 .. 738000 + 6} \<union> date ` set week_rows)"
proof -
  have "distinct (map isoformat [738000, 738001, 738002, 738003, 738004, 738005, 738006, 737990])"
    unfolding iso_week by simp
  then have "inj_on isoformat (set [738000, 738001, 738002, 738003, 738004, 738005, 738006, 737990])"
    by (simp only: distinct_map)
  moreover have "{738000 .. 738000 + 6} \<union> date ` set week_rows
      \<subseteq> set [738000, 738001, 738002, 738003, 738004, 738005, 738006, 737990 :: int]"
    by (auto simp: week_rows_def banana_def toast_def old_row_def)
  ultimately show ?thesis by (rule inj_on_subset)
qed

theorem get_weekly_stats_window_witness:
  "738000 + 6 \<le> MAXORDINAL
   \<and> inj_on isoformat ({738000 .. 738000 + 6} \<union> date ` set week_rows)
   \<and> (\<exists>r. weekly_view 738000 (738000 + 6) week_rows = Inr r
          \<and> end_date r = 738006
          \<and> daily_stats r ''2021-07-29'' =
              Some \<lparr>t_calories = 360, t_protein = 4, t_carbs = 80, t_fat = 1.2\<rparr>
          \<and> daily_stats r ''2021-07-30'' = Some totals0
          \<and> daily_stats r ''2021-07-19'' = None)"
proof -
  have m: "738000 + 6 \<le> MAXORDINAL" by (simp add: MAXORDINAL_def)
  from get_weekly_stats_window [OF _ m inj_week, of 0 db1 1]
  obtain r where r: "weekly_view 738000 (738000 + 6) week_rows = Inr r"
    "end_date r = 738000 + 6"
    "dom (daily_stats r) = isoformat ` {738000 .. 738000 + 6}"
    and day: "\<And>d. d \<in> {738000 .. 738000 + 6} \<Longrightarrow>
           daily_stats r (isoformat d) =
             Some \<lparr>t_calories = sum_in_order (map (\<lambda>e. calories e * servings e)
                                  (filter (\<lambda>e. date e = d) week_rows)),
                   t_protein = sum_in_order (map (\<lambda>e. protein e * servings e)
                                 (filter (\<lambda>e. date e = d) week_rows)),
                   t_carbs = sum_in_order (map (\<lambda>e. carbs e * servings e)
                               (filter (\<lambda>e. date e = d) week_rows)),
                   t_fat = sum_in_order (map (\<lambda>e. fat e * servings e)
                             (filter (\<lambda>e. date e = d) week_rows))\<rparr>"
    by auto
  have i: "isoformat 738000 = ''2021-07-29''" "isoformat 738001 = ''2021-07-30''"
    "isoformat 737990 = ''2021-07-19''"
    using iso_week by simp_all
  have a: "daily_stats r ''2021-07-29'' =
              Some \<lparr>t_calories = 360, t_protein = 4, t_carbs = 80, t_fat = 1.2\<rparr>"
    using day [of 738000]
    by (simp add: i week_rows_def banana_def toast_def old_row_def sum_in_order_def)
  have b: "daily_stats r ''2021-07-30'' = Some totals0"
    using day [of 738001]
    by (simp add: i week_rows_def banana_def toast_def old_row_def sum_in_order_def totals0_def)
  have "''2021-07-19'' \<notin> isoformat ` {738000 .. 738000 + 6}"
  proof -
    have "{738000 .. 738000 + 6} = set [738000, 738001, 738002, 738003, 738004, 738005, 738006 :: int]"
      by auto
    then have "isoformat ` {738000 .. 738000 + 6}
        = set (map isoformat [738000, 738001, 738002, 738003, 738004, 738005, 738006])"
      by (simp only: set_map)
    also have "\<dots> = set [''2021-07-29'', ''2021-07-30'', ''2021-07-31'', ''2021-08-01'',
        ''2021-08-02'', ''2021-08-03'', ''2021-08-04'']"
      using iso_week by simp
    finally show ?thesis by simp
  qed
  then have c: "daily_stats r ''2021-07-19'' = None"
    using r(3) by (auto simp: dom_def)
  show ?thesis
    using m inj_week r(1,2) a b c by auto
qed

subsection \<open>Aggregation for a user without entries\<close>








end
